theory Spec2Isabelle
  imports Complex_Main
begin

section \<open>Python values and string primitives\<close>

text \<open>
  Python strings are modelled as \<^typ>\<open>string\<close>. The model is exact for ASCII text: one
  \<^typ>\<open>char\<close> per code point, \<open>len\<close> is \<^const>\<open>length\<close>, and \<open>str.lower\<close> and
  \<open>str.strip\<close> act on the ASCII letters and the ASCII white space. Python floats are only
  passed through by the code modelled here and are carried as \<^typ>\<open>rat\<close>. The bytes of
  an audio response are a \<^typ>\<open>char\<close> list as well (a \<^typ>\<open>char\<close> is one byte).
\<close>

type_synonym bytes = "char list"

datatype pyval =
    PNone
  | PBool bool
  | PInt int
  | PFloat rat
  | PStr string
  | PList "pyval list"
  | PDict "(string \<times> pyval) list"

text \<open>An exception carries the text that \<open>str(e)\<close> gives.\<close>

datatype py_error =
    AttributeError string
  | IndexError string
  | KeyError string
  | TypeError string
  | ValueError string
  | ConnectionError string
  | ClientError string
  | Exception string

fun exc_str :: "py_error \<Rightarrow> string" where
  "exc_str (AttributeError s) = s"
| "exc_str (IndexError s) = s"
| "exc_str (KeyError s) = s"
| "exc_str (TypeError s) = s"
| "exc_str (ValueError s) = s"
| "exc_str (ConnectionError s) = s"
| "exc_str (ClientError s) = s"
| "exc_str (Exception s) = s"

fun type_name :: "pyval \<Rightarrow> string" where
  "type_name PNone = ''NoneType''"
| "type_name (PBool b) = ''bool''"
| "type_name (PInt i) = ''int''"
| "type_name (PFloat r) = ''float''"
| "type_name (PStr s) = ''str''"
| "type_name (PList xs) = ''list''"
| "type_name (PDict d) = ''dict''"

definition squote :: "string \<Rightarrow> string" where
  "squote s = CHR 0x27 # s @ [CHR 0x27]"

definition no_attribute :: "pyval \<Rightarrow> string \<Rightarrow> py_error" where
  "no_attribute obj attr =
     AttributeError (squote (type_name obj) @ '' object has no attribute '' @ squote attr)"

definition newline :: char where
  "newline = CHR 0x0A"

text \<open>\<open>sep.join(xs)\<close>\<close>

fun py_join :: "string \<Rightarrow> string list \<Rightarrow> string" where
  "py_join sep [] = []"
| "py_join sep [x] = x"
| "py_join sep (x # y # ys) = x @ sep @ py_join sep (y # ys)"

text \<open>\<open>s.split(c)\<close> for a separator of one character: never the empty list.\<close>

fun py_split :: "string \<Rightarrow> char \<Rightarrow> string list" where
  "py_split [] sep = [[]]"
| "py_split (c # cs) sep =
     (if c = sep then [] # py_split cs sep
      else (case py_split cs sep of [] \<Rightarrow> [[c]] | l # ls \<Rightarrow> (c # l) # ls))"

text \<open>
  The ASCII characters for which \<open>str.isspace\<close> holds: tab, line feed, vertical tab, form
  feed, carriage return, the four separators 0x1C to 0x1F, and the space.
\<close>

definition is_space :: "char \<Rightarrow> bool" where
  "is_space c \<longleftrightarrow>
     c \<in> set [CHR 0x09, CHR 0x0A, CHR 0x0B, CHR 0x0C, CHR 0x0D,
               CHR 0x1C, CHR 0x1D, CHR 0x1E, CHR 0x1F, CHR 0x20]"

definition py_strip :: "string \<Rightarrow> string" where
  "py_strip s = rev (dropWhile is_space (rev (dropWhile is_space s)))"

definition startswith :: "string \<Rightarrow> string \<Rightarrow> bool" where
  "startswith s p \<longleftrightarrow> take (length p) s = p"

text \<open>\<open>sub in s\<close>\<close>

fun py_contains :: "string \<Rightarrow> string \<Rightarrow> bool" where
  "py_contains sub [] = (sub = [])"
| "py_contains sub (c # cs) = (startswith (c # cs) sub \<or> py_contains sub cs)"

definition lower_char :: "char \<Rightarrow> char" where
  "lower_char c =
     (case map_of (zip ''ABCDEFGHIJKLMNOPQRSTUVWXYZ'' ''abcdefghijklmnopqrstuvwxyz'') c of
        Some d \<Rightarrow> d
      | None \<Rightarrow> c)"

definition py_lower :: "string \<Rightarrow> string" where
  "py_lower s = map lower_char s"

text \<open>\<open>str(n)\<close> for an integer.\<close>

fun str_nat :: "nat \<Rightarrow> string" where
  "str_nat n =
     (if n < 10 then [''0123456789'' ! n]
      else str_nat (n div 10) @ [''0123456789'' ! (n mod 10)])"

declare str_nat.simps [simp del]

definition str_int :: "int \<Rightarrow> string" where
  "str_int i = (if i < 0 then CHR ''-'' # str_nat (nat (- i)) else str_nat (nat i))"

text \<open>\<open>d.get(key, default)\<close> on a dictionary.\<close>

definition dict_get :: "(string \<times> pyval) list \<Rightarrow> string \<Rightarrow> pyval \<Rightarrow> pyval" where
  "dict_get d key dflt = (case map_of d key of None \<Rightarrow> dflt | Some v \<Rightarrow> v)"

text \<open>\<open>obj.get(key, default)\<close>, \<open>obj[0]\<close> and \<open>obj.strip()\<close> on a value of any type.\<close>

definition py_get :: "pyval \<Rightarrow> string \<Rightarrow> pyval \<Rightarrow> py_error + pyval" where
  "py_get obj key dflt =
     (case obj of
        PDict d \<Rightarrow> Inr (dict_get d key dflt)
      | _ \<Rightarrow> Inl (no_attribute obj ''get''))"

definition py_index0 :: "pyval \<Rightarrow> py_error + pyval" where
  "py_index0 obj =
     (case obj of
        PList [] \<Rightarrow> Inl (IndexError ''list index out of range'')
      | PList (x # xs) \<Rightarrow> Inr x
      | PStr [] \<Rightarrow> Inl (IndexError ''string index out of range'')
      | PStr (c # cs) \<Rightarrow> Inr (PStr [c])
      | PDict d \<Rightarrow> Inl (KeyError ''0'')
      | _ \<Rightarrow> Inl (TypeError (squote (type_name obj) @ '' object is not subscriptable'')))"

definition py_strip_val :: "pyval \<Rightarrow> py_error + string" where
  "py_strip_val obj =
     (case obj of
        PStr s \<Rightarrow> Inr (py_strip s)
      | _ \<Rightarrow> Inl (no_attribute obj ''strip''))"

section \<open>The Kobold provider (providers/kobold_provider.py)\<close>

record KoboldProvider =
  api_url :: "string option"
  temperature :: rat
  max_tokens :: int
  max_context :: int
  conversation_history :: "string list"

definition kobold_init :: KoboldProvider where
  "kobold_init =
     \<lparr>api_url = None, temperature = 7 / 10, max_tokens = 150, max_context = 2048,
      conversation_history = []\<rparr>"

definition start_session :: "KoboldProvider \<Rightarrow> KoboldProvider" where
  "start_session p = p\<lparr>conversation_history := []\<rparr>"

definition send_message :: "KoboldProvider \<Rightarrow> string \<Rightarrow> KoboldProvider" where
  "send_message p message =
     p\<lparr>conversation_history := conversation_history p @ [''User: '' @ message]\<rparr>"

subsection \<open>Building and truncating the prompt\<close>

definition kobold_prompt :: "string list \<Rightarrow> string" where
  "kobold_prompt history = py_join [newline] history @ newline # ''Assistant:''"

text \<open>
  The loop \<open>while len('\n'.join(lines)) > self.max_context and len(lines) > 2: lines.pop(0)\<close>.
\<close>

function pop_lines :: "int \<Rightarrow> string list \<Rightarrow> string list" where
  "pop_lines maxc lines =
     (if int (length (py_join [newline] lines)) > maxc \<and> length lines > 2
      then pop_lines maxc (tl lines)
      else lines)"
  by pat_completeness auto
termination
  by (relation "measure (\<lambda>(maxc, lines). length lines)") auto

declare pop_lines.simps [simp del]

definition truncate_prompt :: "int \<Rightarrow> string \<Rightarrow> string" where
  "truncate_prompt maxc prompt =
     (if int (length prompt) > maxc
      then py_join [newline] (pop_lines maxc (py_split prompt newline))
      else prompt)"

subsection \<open>One turn against the backend\<close>

text \<open>
  The request that \<open>session.post\<close> sends (URL, headers, JSON payload) and what the
  backend answers. \<open>session.post\<close> either raises or gives a response with a status;
  \<open>await resp.json()\<close>, \<open>await resp.text()\<close> and \<open>await resp.read()\<close> each either
  raise or give the body. Leaving the two \<open>async with\<close> blocks is taken not to raise.
\<close>

record http_request =
  url :: string
  headers :: "(string \<times> string) list"
  json :: "(string \<times> pyval) list"

record http_response =
  status :: int
  json_body :: "py_error + pyval"
  text_body :: "py_error + string"
  read_body :: "py_error + bytes"

datatype http_result = Raised py_error | Response http_response

text \<open>
  A chunk is the dictionary the generator yields: \<open>{"type": "text_delta", "text", "done"}\<close>,
  \<open>{"type": "text_complete", "text", "done"}\<close> or \<open>{"type": "error", "message"}\<close>.
\<close>

datatype chunk =
    TextDelta string bool
  | TextComplete string bool
  | ErrorChunk string

text \<open>\<open>f"{x}"\<close> for an optional string: \<open>None\<close> prints as its name.\<close>

definition fmt_opt :: "string option \<Rightarrow> string" where
  "fmt_opt x = (case x of None \<Rightarrow> ''None'' | Some s \<Rightarrow> s)"

definition build_request :: "KoboldProvider \<Rightarrow> string \<Rightarrow> http_request" where
  "build_request p prompt =
     \<lparr>url = fmt_opt (api_url p) @ ''/api/v1/generate'',
      headers = [(''Content-Type'', ''application/json'')],
      json = [(''prompt'', PStr prompt),
              (''max_length'', PInt (max_tokens p)),
              (''temperature'', PFloat (temperature p)),
              (''rep_pen'', PFloat (11 / 10)),
              (''top_p'', PFloat (9 / 10)),
              (''top_k'', PInt 40),
              (''sampler_order'', PList (map PInt [6, 0, 1, 2, 3, 4, 5]))]\<rparr>"

text \<open>\<open>data.get('results', [{}])[0].get('text', '').strip()\<close>\<close>

definition results_text :: "pyval \<Rightarrow> py_error + string" where
  "results_text data =
     (case py_get data ''results'' (PList [PDict []]) of
        Inl e \<Rightarrow> Inl e
      | Inr results \<Rightarrow>
          (case py_index0 results of
             Inl e \<Rightarrow> Inl e
           | Inr first \<Rightarrow>
               (case py_get first ''text'' (PStr []) of
                  Inl e \<Rightarrow> Inl e
                | Inr t \<Rightarrow> py_strip_val t)))"

text \<open>
  The handler \<open>except Exception as e\<close>: one error chunk, and the provider as it is when
  the exception is raised.
\<close>

definition connection_error :: "KoboldProvider \<Rightarrow> py_error \<Rightarrow> chunk list \<times> KoboldProvider" where
  "connection_error p e = ([ErrorChunk (''Connection error to Kobold server: '' @ exc_str e)], p)"

text \<open>
  The line that \<open>print\<close> writes after the history has been extended starts with an
  emoji, given here by the bytes of its UTF-8 encoding.
\<close>

definition robot_face :: string where
  "robot_face = [CHR 0xF0, CHR 0x9F, CHR 0xA4, CHR 0x96]"

text \<open>
  \<open>get_response_stream\<close>: the chunks the generator yields, in order, and the provider
  afterwards. \<open>print_line s\<close> is what \<open>print(s)\<close> does inside the \<open>try\<close>: it returns
  (\<open>None\<close>) or raises; when it raises, the history already holds the new entry.
\<close>

definition get_response_stream ::
  "KoboldProvider \<Rightarrow> (http_request \<Rightarrow> http_result) \<Rightarrow> (string \<Rightarrow> py_error option) \<Rightarrow>
     chunk list \<times> KoboldProvider" where
  "get_response_stream p backend print_line =
     (let prompt = truncate_prompt (max_context p) (kobold_prompt (conversation_history p)) in
      case backend (build_request p prompt) of
        Raised e \<Rightarrow> connection_error p e
      | Response resp \<Rightarrow>
          if status resp = 200 then
            (case json_body resp of
               Inl e \<Rightarrow> connection_error p e
             | Inr data \<Rightarrow>
                 (case results_text data of
                    Inl e \<Rightarrow> connection_error p e
                  | Inr response_text \<Rightarrow>
                      if response_text \<noteq> [] then
                        (let response_text' =
                           (if startswith response_text ''Assistant:''
                            then py_strip (drop 10 response_text)
                            else response_text);
                             p' = p\<lparr>conversation_history :=
                                     conversation_history p @ [''Assistant: '' @ response_text']\<rparr>
                         in case print_line (robot_face @ '' Billy: '' @ response_text') of
                              Some e \<Rightarrow> connection_error p' e
                            | None \<Rightarrow> ([TextComplete response_text' True], p'))
                      else ([TextComplete response_text True], p)))
          else
            (case text_body resp of
               Inl e \<Rightarrow> connection_error p e
             | Inr error_text \<Rightarrow>
                 ([ErrorChunk (''Kobold server error '' @ str_int (status resp) @ '': '' @ error_text)],
                  p)))"

text \<open>A chunk ends the turn when it is an error or carries \<open>done = True\<close>.\<close>

fun terminal :: "chunk \<Rightarrow> bool" where
  "terminal (TextDelta t d) = d"
| "terminal (TextComplete t d) = d"
| "terminal (ErrorChunk m) = True"

fun is_error :: "chunk \<Rightarrow> bool" where
  "is_error (ErrorChunk m) = True"
| "is_error c = False"

fun is_completed :: "chunk \<Rightarrow> bool" where
  "is_completed (TextComplete t d) = d"
| "is_completed c = False"

section \<open>The streaming consumption loop (main.py, \<open>_handle_streaming_response\<close>)\<close>










section \<open>Configuration resolution (core/config.py and main.py)\<close>

text \<open>
  The environment snapshot is a map from variable names to values; \<open>os.getenv(k)\<close> is the
  lookup. \<open>if os.getenv(k)\<close> holds when the variable is set to a non-empty string.
\<close>

type_synonym env = "string \<Rightarrow> string option"

definition truthy :: "string option \<Rightarrow> bool" where
  "truthy v = (case v of None \<Rightarrow> False | Some s \<Rightarrow> s \<noteq> [])"

definition getenv_default :: "env \<Rightarrow> string \<Rightarrow> string \<Rightarrow> string" where
  "getenv_default e k dflt = (case e k of None \<Rightarrow> dflt | Some v \<Rightarrow> v)"

text \<open>
  \<open>a or b\<close> on optional strings. Where a branch is guarded by \<open>if os.getenv(k)\<close> the
  variable is set, and \<open>getenv_default e k []\<close> reads its value.
\<close>

definition py_or :: "string option \<Rightarrow> string option \<Rightarrow> string option" where
  "py_or a b = (if truthy a then a else b)"

subsection \<open>core/config.py\<close>

definition detect_llm_provider :: "env \<Rightarrow> string" where
  "detect_llm_provider e =
     (if truthy (e ''LLM_PROVIDER'') then py_lower (getenv_default e ''LLM_PROVIDER'' [])
      else if truthy (e ''OLLAMA_HOST'') \<or> truthy (e ''OLLAMA_URL'') \<or> truthy (e ''LLM_API_URL'')
        then ''ollama''
      else if truthy (e ''KOBOLD_URL'') \<or> truthy (e ''KOBOLD_HOST'') then ''kobold''
      else ''openai'')"

definition add_scheme :: "string \<Rightarrow> string" where
  "add_scheme host = (if \<not> py_contains ''://'' host then ''http://'' @ host else host)"

definition get_llm_api_url :: "string \<Rightarrow> env \<Rightarrow> string option" where
  "get_llm_api_url provider e =
     (if provider = ''openai'' then None
      else if provider = ''ollama'' then
        (if truthy (e ''LLM_API_URL'') then e ''LLM_API_URL''
         else if truthy (e ''OLLAMA_URL'') then e ''OLLAMA_URL''
         else if truthy (e ''OLLAMA_HOST'')
           then Some (add_scheme (getenv_default e ''OLLAMA_HOST'' []))
         else Some ''http://localhost:11434'')
      else if provider = ''kobold'' then
        py_or (e ''LLM_API_URL'') (Some (getenv_default e ''KOBOLD_URL'' ''http://localhost:5000''))
      else None)"

subsection \<open>main.py\<close>

definition detect_llm_provider_main :: "env \<Rightarrow> string" where
  "detect_llm_provider_main e =
     (if truthy (e ''LLM_PROVIDER'') then py_lower (getenv_default e ''LLM_PROVIDER'' [])
      else if truthy (e ''OLLAMA_HOST'') \<or> truthy (e ''OLLAMA_URL'') then ''ollama''
      else if truthy (e ''KOBOLD_URL'') then ''kobold''
      else ''openai'')"

record LLMConfig =
  llm_provider :: string
  llm_model :: string
  llm_api_key :: "string option"
  llm_api_url :: "string option"
  llm_temperature :: rat
  llm_max_tokens :: int

text \<open>
  \<open>float(os.getenv("LLM_TEMPERATURE", "0.7"))\<close> and \<open>int(os.getenv("LLM_MAX_TOKENS", "150"))\<close>:
  the two conversions are parameters (\<open>None\<close> where Python raises \<open>ValueError\<close>), evaluated
  in this order.
\<close>

definition sampling ::
  "(string \<Rightarrow> rat option) \<Rightarrow> (string \<Rightarrow> int option) \<Rightarrow> env \<Rightarrow> py_error + rat \<times> int" where
  "sampling py_float py_int e =
     (case py_float (getenv_default e ''LLM_TEMPERATURE'' ''0.7'') of
        None \<Rightarrow>
          Inl (ValueError (''could not convert string to float: '' @
                 squote (getenv_default e ''LLM_TEMPERATURE'' ''0.7'')))
      | Some t \<Rightarrow>
          (case py_int (getenv_default e ''LLM_MAX_TOKENS'' ''150'') of
             None \<Rightarrow>
               Inl (ValueError (''invalid literal for int() with base 10: '' @
                      squote (getenv_default e ''LLM_MAX_TOKENS'' ''150'')))
           | Some n \<Rightarrow> Inr (t, n)))"

text \<open>\<open>a or d\<close> for an optional string \<open>a\<close> and a string \<open>d\<close>.\<close>

definition or_default :: "string option \<Rightarrow> string \<Rightarrow> string" where
  "or_default a d = (case a of None \<Rightarrow> d | Some s \<Rightarrow> if s \<noteq> [] then s else d)"

text \<open>The base URL of the \<open>ollama\<close> branch of \<open>load_config\<close>.\<close>

definition ollama_api_url :: "env \<Rightarrow> string" where
  "ollama_api_url e =
     (let api_url = py_or (e ''LLM_API_URL'') (e ''OLLAMA_URL'');
          api_url = (if \<not> truthy api_url \<and> truthy (e ''OLLAMA_HOST'')
                     then Some (add_scheme (getenv_default e ''OLLAMA_HOST'' []))
                     else api_url)
      in or_default api_url ''http://localhost:11434'')"

text \<open>The language-model part of \<open>load_config\<close>.\<close>

definition load_config_llm ::
  "(string \<Rightarrow> rat option) \<Rightarrow> (string \<Rightarrow> int option) \<Rightarrow> env \<Rightarrow> py_error + LLMConfig" where
  "load_config_llm py_float py_int e =
     (let provider = detect_llm_provider_main e in
      if provider = ''openai'' then
        (case sampling py_float py_int e of
           Inl err \<Rightarrow> Inl err
         | Inr (t, n) \<Rightarrow>
             Inr \<lparr>llm_provider = ''openai'',
                  llm_model = getenv_default e ''OPENAI_MODEL'' ''gpt-4o-mini-realtime-preview'',
                  llm_api_key = e ''OPENAI_API_KEY'',
                  llm_api_url = e ''OPENAI_API_URL'',
                  llm_temperature = t, llm_max_tokens = n\<rparr>)
      else if provider = ''ollama'' then
        (case sampling py_float py_int e of
           Inl err \<Rightarrow> Inl err
         | Inr (t, n) \<Rightarrow>
             Inr \<lparr>llm_provider = ''ollama'',
                  llm_model =
                    getenv_default e ''LLM_MODEL''
                      (getenv_default e ''OLLAMA_MODEL'' ''llama3.2:latest''),
                  llm_api_key = None,
                  llm_api_url = Some (ollama_api_url e),
                  llm_temperature = t, llm_max_tokens = n\<rparr>)
      else if provider = ''kobold'' then
        (case sampling py_float py_int e of
           Inl err \<Rightarrow> Inl err
         | Inr (t, n) \<Rightarrow>
             Inr \<lparr>llm_provider = ''kobold'',
                  llm_model = ''kobold'',
                  llm_api_key = e ''KOBOLD_API_KEY'',
                  llm_api_url =
                    Some (getenv_default e ''LLM_API_URL''
                            (getenv_default e ''KOBOLD_URL'' ''http://localhost:5000'')),
                  llm_temperature = t, llm_max_tokens = n\<rparr>)
      else
        Inr \<lparr>llm_provider = ''openai'', llm_model = ''gpt-4o-mini-realtime-preview'',
             llm_api_key = None, llm_api_url = None,
             llm_temperature = 7 / 10, llm_max_tokens = 150\<rparr>)"

section \<open>The provider factory (providers/factory.py)\<close>

datatype llm_class = OpenAIProviderC | OllamaProviderC | KoboldProviderC

datatype voice_class = OpenAIVoiceProviderC | ChatterAIVoiceProviderC | XTTVoiceProviderC

definition LLM_PROVIDERS :: "(string \<times> llm_class) list" where
  "LLM_PROVIDERS =
     [(''openai'', OpenAIProviderC), (''ollama'', OllamaProviderC), (''kobold'', KoboldProviderC)]"

definition VOICE_PROVIDERS :: "(string \<times> voice_class) list" where
  "VOICE_PROVIDERS =
     [(''openai'', OpenAIVoiceProviderC), (''chatterai'', ChatterAIVoiceProviderC),
      (''xtt'', XTTVoiceProviderC)]"

text \<open>What the factory does to a provider class, in order.\<close>

datatype 'c factory_event = Instantiated 'c | Initialized 'c

text \<open>\<open>config.get('provider', 'openai').lower()\<close>\<close>

definition provider_name_of :: "(string \<times> pyval) list \<Rightarrow> py_error + string" where
  "provider_name_of config =
     (case dict_get config ''provider'' (PStr ''openai'') of
        PStr s \<Rightarrow> Inr (py_lower s)
      | v \<Rightarrow> Inl (no_attribute v ''lower''))"

text \<open>\<open>str(xs)\<close> for a list of strings that need no escaping, as the registry keys.\<close>

definition py_repr_list :: "string list \<Rightarrow> string" where
  "py_repr_list xs = ''['' @ py_join '', '' (map squote xs) @ '']''"

text \<open>
  The two constructors. \<open>init c config\<close> is what \<open>await provider.initialize(config)\<close>
  gives for an instance of class \<open>c\<close>: it raises, or returns a truth value.
\<close>

definition create_llm_provider ::
  "(llm_class \<Rightarrow> (string \<times> pyval) list \<Rightarrow> py_error + bool) \<Rightarrow> (string \<times> pyval) list \<Rightarrow>
     llm_class factory_event list \<times> (py_error + llm_class)" where
  "create_llm_provider init config =
     (case provider_name_of config of
        Inl e \<Rightarrow> ([], Inl e)
      | Inr provider_name \<Rightarrow>
          (case map_of LLM_PROVIDERS provider_name of
             None \<Rightarrow>
               ([], Inl (ValueError (''Unknown LLM provider '' @ squote provider_name @
                           ''. Available: '' @ py_repr_list (map fst LLM_PROVIDERS))))
           | Some provider_class \<Rightarrow>
               (case init provider_class config of
                  Inl e \<Rightarrow> ([Instantiated provider_class, Initialized provider_class], Inl e)
                | Inr ok \<Rightarrow>
                    ([Instantiated provider_class, Initialized provider_class],
                     if ok then Inr provider_class
                     else Inl (ConnectionError (''Failed to initialize LLM provider '' @
                                  squote provider_name))))))"

definition create_voice_provider ::
  "(voice_class \<Rightarrow> (string \<times> pyval) list \<Rightarrow> py_error + bool) \<Rightarrow> (string \<times> pyval) list \<Rightarrow>
     voice_class factory_event list \<times> (py_error + voice_class)" where
  "create_voice_provider init config =
     (case provider_name_of config of
        Inl e \<Rightarrow> ([], Inl e)
      | Inr provider_name \<Rightarrow>
          (case map_of VOICE_PROVIDERS provider_name of
             None \<Rightarrow>
               ([], Inl (ValueError (''Unknown Voice provider '' @ squote provider_name @
                           ''. Available: '' @ py_repr_list (map fst VOICE_PROVIDERS))))
           | Some provider_class \<Rightarrow>
               (case init provider_class config of
                  Inl e \<Rightarrow> ([Instantiated provider_class, Initialized provider_class], Inl e)
                | Inr ok \<Rightarrow>
                    ([Instantiated provider_class, Initialized provider_class],
                     if ok then Inr provider_class
                     else Inl (ConnectionError (''Failed to initialize Voice provider '' @
                                  squote provider_name))))))"

section \<open>The voice providers (providers/voice)\<close>

record OpenAIVoiceProvider =
  ov_api_key :: "string option"
  ov_api_url :: "string option"
  ov_model :: string
  organization :: "string option"
  project_id :: "string option"

record ChatterAIVoiceProvider =
  ca_api_url :: "string option"
  ca_api_key :: "string option"
  ca_model :: string

text \<open>The request that \<open>text_to_speech\<close> of the OpenAI provider posts.\<close>

definition openai_tts_request ::
  "OpenAIVoiceProvider \<Rightarrow> string \<Rightarrow> (string \<times> pyval) list \<Rightarrow> http_request" where
  "openai_tts_request p text voice_params =
     \<lparr>url = fmt_opt (ov_api_url p) @ ''/audio/speech'',
      headers =
        [(''Authorization'', ''Bearer '' @ fmt_opt (ov_api_key p)),
         (''Content-Type'', ''application/json'')]
        @ (if truthy (organization p) then [(''OpenAI-Organization'', fmt_opt (organization p))]
           else [])
        @ (if truthy (project_id p) then [(''OpenAI-Project'', fmt_opt (project_id p))] else []),
      json =
        [(''model'', PStr (ov_model p)),
         (''input'', PStr text),
         (''voice'', dict_get voice_params ''voice'' (PStr ''ash'')),
         (''speed'', dict_get voice_params ''speed'' (PFloat 1)),
         (''response_format'', PStr ''wav'')]\<rparr>"

text \<open>
  \<open>text_to_speech\<close>: the audio bytes, or the exception that leaves the function (the
  handler prints and re-raises).
\<close>

definition openai_text_to_speech ::
  "OpenAIVoiceProvider \<Rightarrow> (http_request \<Rightarrow> http_result) \<Rightarrow> string \<Rightarrow> (string \<times> pyval) list \<Rightarrow>
     py_error + bytes" where
  "openai_text_to_speech p backend text voice_params =
     (case backend (openai_tts_request p text voice_params) of
        Raised e \<Rightarrow> Inl e
      | Response resp \<Rightarrow>
          if status resp = 200 then read_body resp
          else
            (case text_body resp of
               Inl e \<Rightarrow> Inl e
             | Inr error_text \<Rightarrow>
                 Inl (Exception (''OpenAI TTS error '' @ str_int (status resp) @ '': '' @
                        error_text))))"

definition chatterai_tts_request ::
  "ChatterAIVoiceProvider \<Rightarrow> string \<Rightarrow> (string \<times> pyval) list \<Rightarrow> http_request" where
  "chatterai_tts_request p text voice_params =
     \<lparr>url = fmt_opt (ca_api_url p) @ ''/api/v1/tts'',
      headers =
        [(''Authorization'', ''Bearer '' @ fmt_opt (ca_api_key p)),
         (''Content-Type'', ''application/json'')],
      json =
        [(''text'', PStr text),
         (''voice'', dict_get voice_params ''voice'' (PStr (ca_model p))),
         (''speed'', dict_get voice_params ''speed'' (PFloat 1)),
         (''format'', PStr ''wav'')]\<rparr>"

definition chatterai_text_to_speech ::
  "ChatterAIVoiceProvider \<Rightarrow> (http_request \<Rightarrow> http_result) \<Rightarrow> string \<Rightarrow>
     (string \<times> pyval) list \<Rightarrow> py_error + bytes" where
  "chatterai_text_to_speech p backend text voice_params =
     (case backend (chatterai_tts_request p text voice_params) of
        Raised e \<Rightarrow> Inl e
      | Response resp \<Rightarrow>
          if status resp = 200 then read_body resp
          else
            (case text_body resp of
               Inl e \<Rightarrow> Inl e
             | Inr error_text \<Rightarrow>
                 Inl (Exception (''ChatterAI TTS error '' @ str_int (status resp) @ '': '' @
                        error_text))))"

text \<open>The voices each provider lists in \<open>get_supported_voices\<close>.\<close>

definition openai_supported_voices :: "string list" where
  "openai_supported_voices =
     [''alloy'', ''echo'', ''fable'', ''onyx'', ''nova'', ''shimmer'', ''ash'', ''ballad'',
      ''coral'', ''sage'', ''verse'']"

definition chatterai_supported_voices :: "string list" where
  "chatterai_supported_voices =
     [''natural'', ''expressive'', ''calm'', ''energetic'', ''professional'', ''friendly'']"

section \<open>Facts about the string primitives\<close>

lemma py_split_not_Nil: "py_split s c \<noteq> []"
  by (induction s) (auto split: list.splits)

lemma py_join_Cons: "ys \<noteq> [] \<Longrightarrow> py_join sep (x # ys) = x @ sep @ py_join sep ys"
  by (cases ys) auto

lemma py_join_split: "py_join [c] (py_split s c) = s"
proof (induction s)
  case Nil
  show ?case by simp
next
  case (Cons a s)
  obtain l ls where spl: "py_split s c = l # ls"
    using py_split_not_Nil [of s c] by (cases "py_split s c") auto
  show ?case
  proof (cases "a = c")
    case True
    with Cons spl show ?thesis by simp
  next
    case False
    with Cons spl show ?thesis by (cases ls) auto
  qed
qed


lemma py_split_append_sep:
  "c \<notin> set x \<Longrightarrow> py_split (x @ c # s) c = x # py_split s c"
  by (induction x) auto

lemma py_split_no_sep_id: "c \<notin> set x \<Longrightarrow> py_split x c = [x]"
  by (induction x) auto

lemma py_split_join:
  "ls \<noteq> [] \<Longrightarrow> (\<And>l. l \<in> set ls \<Longrightarrow> c \<notin> set l) \<Longrightarrow> py_split (py_join [c] ls) c = ls"
proof (induction ls)
  case Nil
  then show ?case by simp
next
  case (Cons x ls)
  show ?case
  proof (cases ls)
    case Nil
    with Cons.prems show ?thesis by (simp add: py_split_no_sep_id)
  next
    case (Cons y ys)
    have "py_split (py_join [c] ls) c = ls"
      using Cons.IH Cons.prems Cons by auto
    moreover have "c \<notin> set x" using Cons.prems by simp
    ultimately show ?thesis
      using Cons by (simp add: py_split_append_sep)
  qed
qed

section \<open>Facts about the truncation loop\<close>

lemma pop_lines_stop:
  "\<not> (int (length (py_join [newline] (pop_lines maxc ls))) > maxc \<and> length (pop_lines maxc ls) > 2)"
proof (induction maxc ls rule: pop_lines.induct)
  case (1 maxc lines)
  show ?case
  proof (cases "int (length (py_join [newline] lines)) > maxc \<and> length lines > 2")
    case True
    then have "pop_lines maxc lines = pop_lines maxc (tl lines)"
      by (subst pop_lines.simps) simp
    with 1 True show ?thesis by simp
  next
    case False
    then have "pop_lines maxc lines = lines"
      by (subst pop_lines.simps) auto
    with False show ?thesis by simp
  qed
qed



lemma pop_lines_drop:
  "\<exists>k. pop_lines maxc ls = drop k ls \<and> k + 2 \<le> max 2 (length ls) \<and>
       (\<forall>j<k. int (length (py_join [newline] (drop j ls))) > maxc)"
proof (induction maxc ls rule: pop_lines.induct)
  case (1 maxc lines)
  show ?case
  proof (cases "int (length (py_join [newline] lines)) > maxc \<and> length lines > 2")
    case True
    then have eq: "pop_lines maxc lines = pop_lines maxc (tl lines)"
      by (subst pop_lines.simps) simp
    from 1 True obtain k where k: "pop_lines maxc (tl lines) = drop k (tl lines)"
      "k + 2 \<le> max 2 (length (tl lines))"
      "\<forall>j<k. int (length (py_join [newline] (drop j (tl lines)))) > maxc"
      by blast
    have "pop_lines maxc lines = drop (Suc k) lines"
      using eq k(1) by (simp add: drop_Suc)
    moreover have "Suc k + 2 \<le> max 2 (length lines)"
      using k(2) True by auto
    moreover have "\<forall>j<Suc k. int (length (py_join [newline] (drop j lines))) > maxc"
    proof (intro allI impI)
      fix j assume "j < Suc k"
      show "int (length (py_join [newline] (drop j lines))) > maxc"
      proof (cases j)
        case 0
        with True show ?thesis by simp
      next
        case (Suc i)
        with \<open>j < Suc k\<close> k(3) show ?thesis by (simp add: drop_Suc)
      qed
    qed
    ultimately show ?thesis by blast
  next
    case False
    then have "pop_lines maxc lines = lines"
      by (subst pop_lines.simps) auto
    then have "pop_lines maxc lines = drop 0 lines \<and> 0 + 2 \<le> max 2 (length lines) \<and>
       (\<forall>j<0. int (length (py_join [newline] (drop j lines))) > maxc)" by simp
    then show ?thesis by blast
  qed
qed





lemma kobold_prompt_join:
  "h \<noteq> [] \<Longrightarrow> kobold_prompt h = py_join [newline] (h @ [''Assistant:''])"
  unfolding kobold_prompt_def
proof (induction h)
  case Nil
  then show ?case by simp
next
  case (Cons x h)
  then show ?case by (cases h) auto
qed

lemma kobold_prompt_lines:
  "h \<noteq> [] \<Longrightarrow> (\<And>e. e \<in> set h \<Longrightarrow> newline \<notin> set e) \<Longrightarrow>
     py_split (kobold_prompt h) newline = h @ [''Assistant:'']"
proof -
  assume h: "h \<noteq> []" and nl: "\<And>e. e \<in> set h \<Longrightarrow> newline \<notin> set e"
  have "\<And>l. l \<in> set (h @ [''Assistant:'']) \<Longrightarrow> newline \<notin> set l"
    using nl by (auto simp: newline_def)
  then have "py_split (py_join [newline] (h @ [''Assistant:''])) newline = h @ [''Assistant:'']"
    by (intro py_split_join) auto
  with h show ?thesis by (simp add: kobold_prompt_join)
qed

lemma kobold_prompt_two_lines: "2 \<le> length (py_split (kobold_prompt h) newline)"
proof -
  have "\<And>a b. 2 \<le> length (py_split (a @ newline # b) newline)"
  proof -
    fix a b show "2 \<le> length (py_split (a @ newline # b) newline)"
    proof (induction a)
      case Nil
      then show ?case using py_split_not_Nil [of b newline] by (cases "py_split b newline") auto
    next
      case (Cons x a)
      then show ?case by (cases "py_split (a @ newline # b) newline") auto
    qed
  qed
  then show ?thesis by (simp add: kobold_prompt_def)
qed



section \<open>Context truncation\<close>




text \<open>
  C4, as amended. Truncation removes whole lines of the serialized prompt, from the oldest
  end only and in order: the truncated prompt is the join of the lines left after dropping
  the first \<open>k\<close>. Lines are dropped one at a time while the rest is over the budget (every
  shorter drop was over it), and dropping stops when the rest is within the budget or when
  only the last two lines remain, also when those two are still over the budget. The last
  two lines are the last line of the history and the \<open>Assistant:\<close> cue. For a history
  that is not empty and has no line feed inside an entry, the lines are exactly the
  entries followed by the cue, so whole entries are removed.
\<close>

theorem truncation_drops_oldest_lines:
  "\<exists>k. truncate_prompt maxc (kobold_prompt history)
          = py_join [newline] (drop k (py_split (kobold_prompt history) newline))
     \<and> k + 2 \<le> length (py_split (kobold_prompt history) newline)
     \<and> (\<forall>j<k. maxc < int (length (py_join [newline]
                                    (drop j (py_split (kobold_prompt history) newline)))))
     \<and> (int (length (truncate_prompt maxc (kobold_prompt history))) \<le> maxc
          \<or> k + 2 = length (py_split (kobold_prompt history) newline))
     \<and> (history \<noteq> [] \<and> (\<forall>e\<in>set history. newline \<notin> set e)
          \<longrightarrow> py_split (kobold_prompt history) newline = history @ [''Assistant:''])"
proof -
  let ?p = "kobold_prompt history"
  let ?ls = "py_split ?p newline"
  have two: "2 \<le> length ?ls" by (rule kobold_prompt_two_lines)
  have entries: "history \<noteq> [] \<and> (\<forall>e\<in>set history. newline \<notin> set e) \<longrightarrow> ?ls = history @ [''Assistant:'']"
    using kobold_prompt_lines [of history] by blast
  show ?thesis
  proof (cases "maxc < int (length ?p)")
    case False
    then have "truncate_prompt maxc ?p = py_join [newline] (drop 0 ?ls)"
      by (simp add: truncate_prompt_def py_join_split)
    moreover have "int (length (truncate_prompt maxc ?p)) \<le> maxc"
      using False by (simp add: truncate_prompt_def)
    ultimately show ?thesis using two entries by (intro exI [of _ 0]) simp
  next
    case True
    obtain k where k: "pop_lines maxc ?ls = drop k ?ls" "k + 2 \<le> max 2 (length ?ls)"
      "\<forall>j<k. int (length (py_join [newline] (drop j ?ls))) > maxc"
      using pop_lines_drop by blast
    have eq: "truncate_prompt maxc ?p = py_join [newline] (drop k ?ls)"
      using True k(1) by (simp add: truncate_prompt_def)
    have k2: "k + 2 \<le> length ?ls" using k(2) two by simp
    have "\<not> (int (length (py_join [newline] (pop_lines maxc ?ls))) > maxc
             \<and> length (pop_lines maxc ?ls) > 2)"
      by (rule pop_lines_stop)
    then have "int (length (truncate_prompt maxc ?p)) \<le> maxc \<or> k + 2 = length ?ls"
      using eq k(1) k2 by auto
    with eq k2 k(3) entries show ?thesis by blast
  qed
qed

theorem truncation_drops_oldest_lines_witness:
  "[''User: a'', ''Assistant: b'', ''User: c''] \<noteq> []
   \<and> py_split (kobold_prompt [''User: a'', ''Assistant: b'', ''User: c'']) newline
       = [''User: a'', ''Assistant: b'', ''User: c''] @ [''Assistant:'']"
proof -
  have h: "[''User: a'', ''Assistant: b'', ''User: c''] \<noteq> []
      \<and> (\<forall>e\<in>set [''User: a'', ''Assistant: b'', ''User: c'']. newline \<notin> set e)"
    by (simp add: newline_def)
  from truncation_drops_oldest_lines [of 25 "[''User: a'', ''Assistant: b'', ''User: c'']"]
  have "[''User: a'', ''Assistant: b'', ''User: c''] \<noteq> []
      \<and> (\<forall>e\<in>set [''User: a'', ''Assistant: b'', ''User: c'']. newline \<notin> set e)
     \<longrightarrow> py_split (kobold_prompt [''User: a'', ''Assistant: b'', ''User: c'']) newline
          = [''User: a'', ''Assistant: b'', ''User: c''] @ [''Assistant:'']"
    by blast
  with h show ?thesis by blast
qed

lemma truncate_prompt_example:
  "truncate_prompt 25 (kobold_prompt [''User: a'', ''Assistant: b'', ''User: c''])
     = ''User: c'' @ newline # ''Assistant:''"
  by code_simp

text \<open>
  C4, as stated, fails where an entry holds a line feed: the first line of the
  assistant's entry is removed and its second line survives, so the truncated prompt is
  not the serialization of any suffix of the history.
\<close>

theorem truncation_splits_entry_counterexample:
  "truncate_prompt 30 (kobold_prompt [''User: hi'', ''Assistant: one'' @ newline # ''two'', ''User: more''])
     = ''two'' @ newline # ''User: more'' @ newline # ''Assistant:''
   \<and> ''two'' @ newline # ''User: more'' @ newline # ''Assistant:''
       \<noteq> kobold_prompt [''User: hi'', ''Assistant: one'' @ newline # ''two'', ''User: more'']
   \<and> ''two'' @ newline # ''User: more'' @ newline # ''Assistant:''
       \<noteq> kobold_prompt [''Assistant: one'' @ newline # ''two'', ''User: more'']
   \<and> ''two'' @ newline # ''User: more'' @ newline # ''Assistant:''
       \<noteq> kobold_prompt [''User: more'']
   \<and> ''two'' @ newline # ''User: more'' @ newline # ''Assistant:'' \<noteq> kobold_prompt []"
  by code_simp

section \<open>One turn of the Kobold provider\<close>

lemma py_strip_all_space: "(\<forall>c\<in>set t. is_space c) \<Longrightarrow> py_strip t = []"
proof -
  assume "\<forall>c\<in>set t. is_space c"
  then have eq: "dropWhile is_space t = []" by (induction t) auto
  show ?thesis unfolding py_strip_def eq by simp
qed

lemma py_join_length_mono: "length (py_join sep h) \<le> length (py_join sep (h @ x))"
proof (induction h)
  case Nil
  show ?case by simp
next
  case (Cons a h)
  show ?case
  proof (cases h)
    case Nil
    then show ?thesis by (cases x) auto
  next
    case (Cons b h')
    with Cons.IH show ?thesis by simp
  qed
qed

lemma kobold_prompt_length_mono:
  "length (kobold_prompt h) \<le> length (kobold_prompt (h @ x))"
  using py_join_length_mono [of "[newline]" h x] by (simp add: kobold_prompt_def)

lemma get_response_stream_cases:
  "get_response_stream p backend print_line = (cs, p') \<Longrightarrow>
     (\<exists>m. cs = [ErrorChunk m] \<and> p' = p)
   \<or> (cs = [TextComplete [] True] \<and> p' = p)
   \<or> (\<exists>t resp data rt.
          p' = p\<lparr>conversation_history := conversation_history p @ [''Assistant: '' @ t]\<rparr>
        \<and> backend (build_request p (truncate_prompt (max_context p)
                      (kobold_prompt (conversation_history p)))) = Response resp
        \<and> status resp = 200 \<and> json_body resp = Inr data
        \<and> results_text data = Inr rt \<and> rt \<noteq> []
        \<and> (cs = [TextComplete t True]
            \<or> (\<exists>e. print_line (robot_face @ '' Billy: '' @ t) = Some e
                  \<and> cs = [ErrorChunk (''Connection error to Kobold server: '' @ exc_str e)])))"
  unfolding get_response_stream_def connection_error_def Let_def
  by (auto split: http_result.splits sum.splits if_splits option.splits)

text \<open>
  C1. Whatever the backend does (the request raises, the status is not 200, the status is
  200 and the body is or is not the expected JSON) and whether or not the \<open>print\<close> inside
  the \<open>try\<close> raises, \<open>get_response_stream\<close> yields exactly one chunk. That chunk is
  terminal and is either an error chunk or a \<open>text_complete\<close> chunk with \<open>done\<close> set,
  never both; so the stream holds one terminal chunk and nothing after it.
\<close>

theorem get_response_stream_one_terminal:
  "\<exists>c. fst (get_response_stream p backend print_line) = [c] \<and> terminal c
       \<and> (is_error c \<noteq> is_completed c)
       \<and> length (filter terminal (fst (get_response_stream p backend print_line))) = 1"
proof -
  obtain cs p' where r: "get_response_stream p backend print_line = (cs, p')"
    by (cases "get_response_stream p backend print_line")
  from get_response_stream_cases [OF r] show ?thesis
    unfolding r by auto
qed

text \<open>
  C9. \<open>get_response_stream\<close> leaves the stored history as it was or appends one
  \<open>Assistant:\<close> entry to it; the truncation shortens the prompt of the request only. It
  appends only in the branch of a response with status 200 and a text that is not empty
  after trimming: there the stream is the \<open>text_complete\<close> chunk, or, when the \<open>print\<close>
  that follows the append raises, the error chunk of the handler. \<open>max_context\<close> is
  unchanged. Hence a history whose prompt is over the budget is still over the budget
  when the next message has been submitted: the next turn serializes the whole history
  and truncates it again.
\<close>

theorem history_frame:
  "(\<exists>extra. conversation_history (snd (get_response_stream p backend print_line))
              = conversation_history p @ extra
      \<and> (extra = []
          \<or> (\<exists>t resp data rt. extra = [''Assistant: '' @ t]
                 \<and> backend (build_request p (truncate_prompt (max_context p)
                               (kobold_prompt (conversation_history p)))) = Response resp
                 \<and> status resp = 200 \<and> json_body resp = Inr data
                 \<and> results_text data = Inr rt \<and> rt \<noteq> []
                 \<and> (fst (get_response_stream p backend print_line) = [TextComplete t True]
                     \<or> (\<exists>e. print_line (robot_face @ '' Billy: '' @ t) = Some e
                           \<and> fst (get_response_stream p backend print_line)
                               = [ErrorChunk (''Connection error to Kobold server: '' @
                                    exc_str e)])))))
   \<and> max_context (snd (get_response_stream p backend print_line)) = max_context p
   \<and> (max_context p < int (length (kobold_prompt (conversation_history p)))
        \<longrightarrow> max_context (send_message (snd (get_response_stream p backend print_line)) message)
              < int (length (kobold_prompt (conversation_history
                     (send_message (snd (get_response_stream p backend print_line)) message)))))"
proof -
  obtain cs p' where r: "get_response_stream p backend print_line = (cs, p')"
    by (cases "get_response_stream p backend print_line")
  have mono: "length (kobold_prompt (conversation_history p))
      \<le> length (kobold_prompt ((conversation_history p @ extra) @ [''User: '' @ message]))" for extra
    using kobold_prompt_length_mono [of "conversation_history p" "extra @ [''User: '' @ message]"]
    by simp
  from get_response_stream_cases [OF r]
  consider (err) m where "cs = [ErrorChunk m]" "p' = p"
    | (empty) "cs = [TextComplete [] True]" "p' = p"
    | (appended) t resp data rt where
        "p' = p\<lparr>conversation_history := conversation_history p @ [''Assistant: '' @ t]\<rparr>"
        "backend (build_request p (truncate_prompt (max_context p)
                      (kobold_prompt (conversation_history p)))) = Response resp"
        "status resp = 200" "json_body resp = Inr data"
        "results_text data = Inr rt" "rt \<noteq> []"
        "cs = [TextComplete t True]
         \<or> (\<exists>e. print_line (robot_face @ '' Billy: '' @ t) = Some e
               \<and> cs = [ErrorChunk (''Connection error to Kobold server: '' @ exc_str e)])"
    by blast
  then show ?thesis
  proof cases
    case err
    then show ?thesis using mono [of "[]"] by (simp add: r send_message_def)
  next
    case empty
    then show ?thesis using mono [of "[]"] by (simp add: r send_message_def)
  next
    case appended
    have frame: "\<exists>extra. conversation_history p' = conversation_history p @ extra
      \<and> (extra = []
          \<or> (\<exists>t resp data rt. extra = [''Assistant: '' @ t]
                 \<and> backend (build_request p (truncate_prompt (max_context p)
                               (kobold_prompt (conversation_history p)))) = Response resp
                 \<and> status resp = 200 \<and> json_body resp = Inr data
                 \<and> results_text data = Inr rt \<and> rt \<noteq> []
                 \<and> (cs = [TextComplete t True]
                     \<or> (\<exists>e. print_line (robot_face @ '' Billy: '' @ t) = Some e
                           \<and> cs = [ErrorChunk (''Connection error to Kobold server: '' @
                                    exc_str e)]))))"
    proof (intro exI [of _ "[''Assistant: '' @ t]"] conjI disjI2)
      show "conversation_history p' = conversation_history p @ [''Assistant: '' @ t]"
        using appended(1) by simp
      show "\<exists>t' resp data rt. [''Assistant: '' @ t] = [''Assistant: '' @ t']
                 \<and> backend (build_request p (truncate_prompt (max_context p)
                               (kobold_prompt (conversation_history p)))) = Response resp
                 \<and> status resp = 200 \<and> json_body resp = Inr data
                 \<and> results_text data = Inr rt \<and> rt \<noteq> []
                 \<and> (cs = [TextComplete t' True]
                     \<or> (\<exists>e. print_line (robot_face @ '' Billy: '' @ t') = Some e
                           \<and> cs = [ErrorChunk (''Connection error to Kobold server: '' @
                                    exc_str e)]))"
        using appended(2-7) by blast
    qed
    have keep: "max_context p' = max_context p" using appended(1) by simp
    have over: "max_context p < int (length (kobold_prompt (conversation_history p)))
        \<longrightarrow> max_context (send_message p' message)
              < int (length (kobold_prompt (conversation_history (send_message p' message))))"
      using mono [of "[''Assistant: '' @ t]"] appended(1) by (simp add: send_message_def)
    from frame keep over show ?thesis by (simp add: r)
  qed
qed

theorem history_frame_witness:
  "max_context \<lparr>api_url = Some ''http://localhost:5000'', temperature = 7 / 10,
        max_tokens = 150, max_context = 10,
        conversation_history = [''User: hello there'']\<rparr>
     < int (length (kobold_prompt (conversation_history
         \<lparr>api_url = Some ''http://localhost:5000'', temperature = 7 / 10,
          max_tokens = 150, max_context = 10,
          conversation_history = [''User: hello there'']\<rparr>)))
   \<and> conversation_history (send_message (snd (get_response_stream
         \<lparr>api_url = Some ''http://localhost:5000'', temperature = 7 / 10,
          max_tokens = 150, max_context = 10,
          conversation_history = [''User: hello there'']\<rparr>
         (\<lambda>req. Response \<lparr>status = 200,
            json_body = Inr (PDict [(''results'', PList [PDict [(''text'', PStr ''Hi!'')]])]),
            text_body = Inr [], read_body = Inr []\<rparr>)
         (\<lambda>line. None))) ''again'')
       = [''User: hello there'', ''Assistant: Hi!'', ''User: again'']
   \<and> (10::int) < int (length (kobold_prompt
         [''User: hello there'', ''Assistant: Hi!'', ''User: again'']))"
proof -
  let ?P = "\<lparr>api_url = Some ''http://localhost:5000'', temperature = 7 / 10,
        max_tokens = 150, max_context = 10,
        conversation_history = [''User: hello there'']\<rparr>"
  let ?B = "\<lambda>req :: http_request. Response \<lparr>status = 200,
            json_body = Inr (PDict [(''results'', PList [PDict [(''text'', PStr ''Hi!'')]])]),
            text_body = Inr [], read_body = Inr []\<rparr>"
  let ?Q = "\<lambda>line :: string. (None :: py_error option)"
  have h: "max_context ?P < int (length (kobold_prompt (conversation_history ?P)))"
    by (simp add: kobold_prompt_def)
  have hist: "conversation_history (send_message (snd (get_response_stream ?P ?B ?Q)) ''again'')
       = [''User: hello there'', ''Assistant: Hi!'', ''User: again'']"
    by (simp add: get_response_stream_def Let_def results_text_def py_get_def dict_get_def
        py_index0_def py_strip_val_def py_strip_def is_space_def startswith_def send_message_def)
  have "max_context ?P < int (length (kobold_prompt (conversation_history ?P)))
        \<longrightarrow> max_context (send_message (snd (get_response_stream ?P ?B ?Q)) ''again'')
              < int (length (kobold_prompt (conversation_history
                     (send_message (snd (get_response_stream ?P ?B ?Q)) ''again''))))"
    using history_frame [of ?P ?B ?Q "''again''"] by blast
  with h have "max_context (send_message (snd (get_response_stream ?P ?B ?Q)) ''again'')
              < int (length (kobold_prompt (conversation_history
                     (send_message (snd (get_response_stream ?P ?B ?Q)) ''again''))))"
    by blast
  moreover have "max_context (send_message (snd (get_response_stream ?P ?B ?Q)) ''again'') = 10"
    using history_frame [of ?P ?B ?Q] by (simp add: send_message_def)
  ultimately show ?thesis using h hist by simp
qed

text \<open>
  With a \<open>print\<close> that raises, the same response gives an error chunk, and the history
  holds the new entry all the same.
\<close>

lemma get_response_stream_print_raises_example:
  "get_response_stream
       \<lparr>api_url = Some ''http://localhost:5000'', temperature = 7 / 10,
        max_tokens = 150, max_context = 2048,
        conversation_history = [''User: hello there'']\<rparr>
       (\<lambda>req. Response \<lparr>status = 200,
          json_body = Inr (PDict [(''results'', PList [PDict [(''text'', PStr ''Hi!'')]])]),
          text_body = Inr [], read_body = Inr []\<rparr>)
       (\<lambda>line. Some (Exception ''Broken pipe''))
     = ([ErrorChunk ''Connection error to Kobold server: Broken pipe''],
        \<lparr>api_url = Some ''http://localhost:5000'', temperature = 7 / 10,
         max_tokens = 150, max_context = 2048,
         conversation_history = [''User: hello there'', ''Assistant: Hi!'']\<rparr>)"
  by (simp add: get_response_stream_def Let_def results_text_def py_get_def dict_get_def
      py_index0_def py_strip_val_def py_strip_def is_space_def startswith_def
      connection_error_def)

text \<open>
  C10. When the backend answers the request of the submitted message with status 200 and
  a text that is empty or white space only, the stream is the single chunk
  \<open>text_complete\<close> with empty text and \<open>done\<close> set, the provider is unchanged (no
  \<open>Assistant:\<close> entry is appended), and the user's message is the last entry of the
  history.
\<close>

theorem empty_response_keeps_history:
  assumes "backend (build_request (send_message p message)
             (truncate_prompt (max_context (send_message p message))
                (kobold_prompt (conversation_history (send_message p message)))))
           = Response resp"
    and "status resp = 200"
    and "json_body resp = Inr (PDict d)"
    and "map_of d ''results'' = Some (PList (PDict r # rest))"
    and "map_of r ''text'' = Some (PStr t)"
    and "\<forall>c\<in>set t. is_space c"
  shows "get_response_stream (send_message p message) backend print_line
           = ([TextComplete [] True], send_message p message)
         \<and> last (conversation_history (send_message p message)) = ''User: '' @ message"
proof -
  have "results_text (PDict d) = Inr []"
    using assms(4,5,6)
    by (simp add: results_text_def py_get_def dict_get_def py_index0_def py_strip_val_def
        py_strip_all_space)
  with assms(1,2,3) show ?thesis
    by (simp add: get_response_stream_def Let_def send_message_def)
qed

theorem empty_response_keeps_history_witness:
  "get_response_stream (send_message kobold_init ''hi'')
      (\<lambda>req. Response \<lparr>status = 200,
         json_body = Inr (PDict [(''results'', PList [PDict [(''text'', PStr [CHR '' '', newline])]])]),
         text_body = Inr [], read_body = Inr []\<rparr>)
      (\<lambda>line. None)
     = ([TextComplete [] True], send_message kobold_init ''hi'')
   \<and> conversation_history (send_message kobold_init ''hi'') = [''User: hi'']"
proof -
  let ?resp = "\<lparr>status = 200,
         json_body = Inr (PDict [(''results'', PList [PDict [(''text'', PStr [CHR '' '', newline])]])]),
         text_body = Inr [], read_body = Inr []\<rparr>"
  have "get_response_stream (send_message kobold_init ''hi'') (\<lambda>req. Response ?resp)
            (\<lambda>line. None)
          = ([TextComplete [] True], send_message kobold_init ''hi'')
        \<and> last (conversation_history (send_message kobold_init ''hi'')) = ''User: '' @ ''hi''"
    by (rule empty_response_keeps_history [where resp = ?resp
          and d = "[(''results'', PList [PDict [(''text'', PStr [CHR '' '', newline])]])]"
          and r = "[(''text'', PStr [CHR '' '', newline])]" and rest = "[]"
          and t = "[CHR '' '', newline]"])
       (simp_all add: is_space_def newline_def)
  then show ?thesis by (simp add: send_message_def kobold_init_def)
qed

section \<open>Provider resolution\<close>

lemma py_lower_Kobold: "py_lower ''Kobold'' = ''kobold''"
  by (simp add: py_lower_def lower_char_def)

text \<open>
  C2, as amended. A variable counts only when it is set to a non-empty string. In both
  resolvers an \<open>LLM_PROVIDER\<close> that counts is returned lower-cased, whatever else is set,
  and otherwise an \<open>OLLAMA_HOST\<close> or \<open>OLLAMA_URL\<close> that counts selects \<open>ollama\<close>, also
  when a Kobold variable is set. The resolver of main.py then selects \<open>kobold\<close> when
  \<open>KOBOLD_URL\<close> counts and \<open>openai\<close> when it does not; it reads neither \<open>LLM_API_URL\<close>
  nor \<open>KOBOLD_HOST\<close>, so its result does not depend on them. The resolver of
  core/config.py takes \<open>LLM_API_URL\<close> as a further hint for \<open>ollama\<close>; with no Ollama hint
  it selects \<open>kobold\<close> when \<open>KOBOLD_URL\<close> or \<open>KOBOLD_HOST\<close> counts, and \<open>openai\<close> when none
  of the variables counts.
\<close>

theorem detect_llm_provider_precedence:
  "(\<forall>v. e ''LLM_PROVIDER'' = Some v \<and> v \<noteq> [] \<longrightarrow>
        detect_llm_provider e = py_lower v \<and> detect_llm_provider_main e = py_lower v)
   \<and> (\<not> truthy (e ''LLM_PROVIDER'') \<and> (truthy (e ''OLLAMA_HOST'') \<or> truthy (e ''OLLAMA_URL'')) \<longrightarrow>
        detect_llm_provider e = ''ollama'' \<and> detect_llm_provider_main e = ''ollama'')
   \<and> (\<not> truthy (e ''LLM_PROVIDER'') \<and> \<not> truthy (e ''OLLAMA_HOST'') \<and> \<not> truthy (e ''OLLAMA_URL'')
        \<and> truthy (e ''KOBOLD_URL'') \<longrightarrow>
        detect_llm_provider_main e = ''kobold'')
   \<and> (\<not> truthy (e ''LLM_PROVIDER'') \<and> \<not> truthy (e ''OLLAMA_HOST'') \<and> \<not> truthy (e ''OLLAMA_URL'')
        \<and> \<not> truthy (e ''KOBOLD_URL'') \<longrightarrow>
        detect_llm_provider_main e = ''openai'')
   \<and> detect_llm_provider_main (e(''LLM_API_URL'' := x, ''KOBOLD_HOST'' := y))
        = detect_llm_provider_main e
   \<and> (\<not> truthy (e ''LLM_PROVIDER'') \<and> truthy (e ''LLM_API_URL'') \<longrightarrow>
        detect_llm_provider e = ''ollama'')
   \<and> (\<not> truthy (e ''LLM_PROVIDER'') \<and> \<not> truthy (e ''OLLAMA_HOST'') \<and> \<not> truthy (e ''OLLAMA_URL'')
        \<and> \<not> truthy (e ''LLM_API_URL'')
        \<and> (truthy (e ''KOBOLD_URL'') \<or> truthy (e ''KOBOLD_HOST'')) \<longrightarrow>
        detect_llm_provider e = ''kobold'')
   \<and> (\<not> truthy (e ''LLM_PROVIDER'') \<and> \<not> truthy (e ''OLLAMA_HOST'') \<and> \<not> truthy (e ''OLLAMA_URL'')
        \<and> \<not> truthy (e ''LLM_API_URL'') \<and> \<not> truthy (e ''KOBOLD_URL'')
        \<and> \<not> truthy (e ''KOBOLD_HOST'') \<longrightarrow>
        detect_llm_provider e = ''openai'')"
proof -
  have unread: "detect_llm_provider_main (e(''LLM_API_URL'' := x, ''KOBOLD_HOST'' := y))
        = detect_llm_provider_main e"
    by (simp add: detect_llm_provider_main_def getenv_default_def)
  have rest: "(\<forall>v. e ''LLM_PROVIDER'' = Some v \<and> v \<noteq> [] \<longrightarrow>
        detect_llm_provider e = py_lower v \<and> detect_llm_provider_main e = py_lower v)
   \<and> (\<not> truthy (e ''LLM_PROVIDER'') \<and> (truthy (e ''OLLAMA_HOST'') \<or> truthy (e ''OLLAMA_URL'')) \<longrightarrow>
        detect_llm_provider e = ''ollama'' \<and> detect_llm_provider_main e = ''ollama'')
   \<and> (\<not> truthy (e ''LLM_PROVIDER'') \<and> \<not> truthy (e ''OLLAMA_HOST'') \<and> \<not> truthy (e ''OLLAMA_URL'')
        \<and> truthy (e ''KOBOLD_URL'') \<longrightarrow>
        detect_llm_provider_main e = ''kobold'')
   \<and> (\<not> truthy (e ''LLM_PROVIDER'') \<and> \<not> truthy (e ''OLLAMA_HOST'') \<and> \<not> truthy (e ''OLLAMA_URL'')
        \<and> \<not> truthy (e ''KOBOLD_URL'') \<longrightarrow>
        detect_llm_provider_main e = ''openai'')
   \<and> (\<not> truthy (e ''LLM_PROVIDER'') \<and> truthy (e ''LLM_API_URL'') \<longrightarrow>
        detect_llm_provider e = ''ollama'')
   \<and> (\<not> truthy (e ''LLM_PROVIDER'') \<and> \<not> truthy (e ''OLLAMA_HOST'') \<and> \<not> truthy (e ''OLLAMA_URL'')
        \<and> \<not> truthy (e ''LLM_API_URL'')
        \<and> (truthy (e ''KOBOLD_URL'') \<or> truthy (e ''KOBOLD_HOST'')) \<longrightarrow>
        detect_llm_provider e = ''kobold'')
   \<and> (\<not> truthy (e ''LLM_PROVIDER'') \<and> \<not> truthy (e ''OLLAMA_HOST'') \<and> \<not> truthy (e ''OLLAMA_URL'')
        \<and> \<not> truthy (e ''LLM_API_URL'') \<and> \<not> truthy (e ''KOBOLD_URL'')
        \<and> \<not> truthy (e ''KOBOLD_HOST'') \<longrightarrow>
        detect_llm_provider e = ''openai'')"
    by (auto simp: detect_llm_provider_def detect_llm_provider_main_def truthy_def
        getenv_default_def)
  from unread rest show ?thesis by blast
qed

theorem detect_llm_provider_precedence_witness:
  "detect_llm_provider
       (map_of [(''LLM_PROVIDER'', ''Kobold''), (''OLLAMA_HOST'', ''localhost:11434'')])
     = ''kobold''
   \<and> detect_llm_provider_main
       (map_of [(''LLM_PROVIDER'', ''Kobold''), (''OLLAMA_HOST'', ''localhost:11434'')])
     = ''kobold''
   \<and> detect_llm_provider
       (map_of [(''OLLAMA_URL'', ''http://10.0.0.2:11434''), (''KOBOLD_URL'', ''http://10.0.0.3:5000'')])
     = ''ollama''
   \<and> detect_llm_provider_main
       (map_of [(''LLM_API_URL'', ''http://10.0.0.3:5000''), (''KOBOLD_URL'', ''http://10.0.0.3:5000'')])
     = ''kobold''
   \<and> detect_llm_provider_main (map_of [(''KOBOLD_HOST'', ''10.0.0.3:5000'')]) = ''openai''
   \<and> detect_llm_provider (map_of [(''KOBOLD_HOST'', ''10.0.0.3:5000'')]) = ''kobold''
   \<and> detect_llm_provider (map_of []) = ''openai''"
proof -
  let ?e1 = "map_of [(''LLM_PROVIDER'', ''Kobold''), (''OLLAMA_HOST'', ''localhost:11434'')]"
  let ?e2 = "map_of [(''OLLAMA_URL'', ''http://10.0.0.2:11434''), (''KOBOLD_URL'', ''http://10.0.0.3:5000'')]"
  let ?e3 = "map_of [(''LLM_API_URL'', ''http://10.0.0.3:5000''), (''KOBOLD_URL'', ''http://10.0.0.3:5000'')]"
  let ?e4 = "map_of ([] :: (string \<times> string) list)"
  let ?e5 = "map_of [(''KOBOLD_HOST'', ''10.0.0.3:5000'')]"
  have p1: "?e1 ''LLM_PROVIDER'' = Some ''Kobold'' \<and> ''Kobold'' \<noteq> []" by simp
  have 1: "detect_llm_provider ?e1 = py_lower ''Kobold''
      \<and> detect_llm_provider_main ?e1 = py_lower ''Kobold''"
    
    by (rule detect_llm_provider_precedence [where e = ?e1, THEN conjunct1, THEN spec, THEN mp, OF p1])
  have p2: "\<not> truthy (?e2 ''LLM_PROVIDER'') \<and> (truthy (?e2 ''OLLAMA_HOST'') \<or> truthy (?e2 ''OLLAMA_URL''))"
    by (simp add: truthy_def)
  have 2: "detect_llm_provider ?e2 = ''ollama'' \<and> detect_llm_provider_main ?e2 = ''ollama''"
    
    by (rule detect_llm_provider_precedence [where e = ?e2, THEN conjunct2, THEN conjunct1, THEN mp, OF p2])
  have p3: "\<not> truthy (?e3 ''LLM_PROVIDER'') \<and> \<not> truthy (?e3 ''OLLAMA_HOST'') \<and> \<not> truthy (?e3 ''OLLAMA_URL'')
        \<and> truthy (?e3 ''KOBOLD_URL'')"
    by (simp add: truthy_def)
  have 3: "detect_llm_provider_main ?e3 = ''kobold''" 
    by (rule detect_llm_provider_precedence [where e = ?e3, THEN conjunct2, THEN conjunct2, THEN conjunct1, THEN mp, OF p3])
  have p4: "\<not> truthy (?e4 ''LLM_PROVIDER'') \<and> \<not> truthy (?e4 ''OLLAMA_HOST'') \<and> \<not> truthy (?e4 ''OLLAMA_URL'')
        \<and> \<not> truthy (?e4 ''LLM_API_URL'') \<and> \<not> truthy (?e4 ''KOBOLD_URL'')
        \<and> \<not> truthy (?e4 ''KOBOLD_HOST'')"
    by (simp add: truthy_def)
  have 4: "detect_llm_provider ?e4 = ''openai''" 
    by (rule detect_llm_provider_precedence [where e = ?e4, THEN conjunct2, THEN conjunct2, THEN conjunct2, THEN conjunct2, THEN conjunct2, THEN conjunct2, THEN conjunct2, THEN mp, OF p4])
  have p5: "\<not> truthy (?e5 ''LLM_PROVIDER'') \<and> \<not> truthy (?e5 ''OLLAMA_HOST'') \<and> \<not> truthy (?e5 ''OLLAMA_URL'')
        \<and> \<not> truthy (?e5 ''KOBOLD_URL'')"
    by (simp add: truthy_def)
  have 5: "detect_llm_provider_main ?e5 = ''openai''" 
    by (rule detect_llm_provider_precedence [where e = ?e5, THEN conjunct2, THEN conjunct2, THEN conjunct2, THEN conjunct1, THEN mp, OF p5])
  have p6: "\<not> truthy (?e5 ''LLM_PROVIDER'') \<and> \<not> truthy (?e5 ''OLLAMA_HOST'') \<and> \<not> truthy (?e5 ''OLLAMA_URL'')
        \<and> \<not> truthy (?e5 ''LLM_API_URL'')
        \<and> (truthy (?e5 ''KOBOLD_URL'') \<or> truthy (?e5 ''KOBOLD_HOST''))"
    by (simp add: truthy_def)
  have 6: "detect_llm_provider ?e5 = ''kobold''" 
    by (rule detect_llm_provider_precedence [where e = ?e5, THEN conjunct2, THEN conjunct2, THEN conjunct2, THEN conjunct2, THEN conjunct2, THEN conjunct2, THEN conjunct1, THEN mp, OF p6])
  from 1 have k1: "detect_llm_provider ?e1 = ''kobold'' \<and> detect_llm_provider_main ?e1 = ''kobold''"
    unfolding py_lower_Kobold .
  from 2 have k2: "detect_llm_provider ?e2 = ''ollama''" by (rule conjunct1)
  show ?thesis
    by (intro conjI conjunct1 [OF k1] conjunct2 [OF k1] k2 3 4 5 6)
qed

text \<open>
  C2, as stated, fails: an \<open>LLM_PROVIDER\<close> that is present but empty is not returned, and
  the Kobold hint wins over it; and on an environment that sets only \<open>LLM_API_URL\<close>, or
  only \<open>KOBOLD_HOST\<close>, the two resolvers disagree.
\<close>

theorem detect_llm_provider_counterexample:
  "detect_llm_provider (map_of [(''LLM_PROVIDER'', ''''), (''KOBOLD_URL'', ''http://10.0.0.3:5000'')])
     = ''kobold''
   \<and> detect_llm_provider_main
        (map_of [(''LLM_PROVIDER'', ''''), (''KOBOLD_URL'', ''http://10.0.0.3:5000'')])
     = ''kobold''
   \<and> detect_llm_provider (map_of [(''LLM_API_URL'', ''http://10.0.0.3:5000'')]) = ''ollama''
   \<and> detect_llm_provider_main (map_of [(''LLM_API_URL'', ''http://10.0.0.3:5000'')]) = ''openai''
   \<and> detect_llm_provider (map_of [(''KOBOLD_HOST'', ''10.0.0.3:5000'')]) = ''kobold''
   \<and> detect_llm_provider_main (map_of [(''KOBOLD_HOST'', ''10.0.0.3:5000'')]) = ''openai''"
  by (simp add: detect_llm_provider_def detect_llm_provider_main_def truthy_def)

text \<open>
  C6, as amended. With no \<open>LLM_PROVIDER\<close> that counts, \<open>OLLAMA_HOST\<close> set to a non-empty
  host, and neither \<open>OLLAMA_URL\<close> nor \<open>LLM_API_URL\<close> counting, both resolvers select
  \<open>ollama\<close>, and the base URL is the host itself when it contains \<open>://\<close> and the host
  prefixed with \<open>http://\<close> otherwise. \<open>load_config\<close> gives this configuration unless the
  conversion of \<open>LLM_TEMPERATURE\<close> or \<open>LLM_MAX_TOKENS\<close> raises.
\<close>

theorem ollama_host_resolution:
  assumes "\<not> truthy (e ''LLM_PROVIDER'')"
    and "e ''OLLAMA_HOST'' = Some host" and "host \<noteq> []"
    and "\<not> truthy (e ''OLLAMA_URL'')" and "\<not> truthy (e ''LLM_API_URL'')"
  shows "detect_llm_provider e = ''ollama''
     \<and> get_llm_api_url (detect_llm_provider e) e
         = Some (if py_contains ''://'' host then host else ''http://'' @ host)
     \<and> detect_llm_provider_main e = ''ollama''
     \<and> (case load_config_llm py_float py_int e of
           Inl err \<Rightarrow> sampling py_float py_int e = Inl err
         | Inr cfg \<Rightarrow>
             llm_provider cfg = ''ollama''
             \<and> llm_api_url cfg
                 = Some (if py_contains ''://'' host then host else ''http://'' @ host))"
proof -
  have d: "detect_llm_provider e = ''ollama''"
    using assms by (simp add: detect_llm_provider_def truthy_def)
  have dm: "detect_llm_provider_main e = ''ollama''"
    using assms by (simp add: detect_llm_provider_main_def truthy_def)
  have u: "get_llm_api_url ''ollama'' e
      = Some (if py_contains ''://'' host then host else ''http://'' @ host)"
    using assms by (simp add: get_llm_api_url_def truthy_def getenv_default_def add_scheme_def)
  have um: "ollama_api_url e = (if py_contains ''://'' host then host else ''http://'' @ host)"
    using assms
    by (auto simp: ollama_api_url_def Let_def py_or_def truthy_def getenv_default_def
        add_scheme_def or_default_def split: option.splits)
  have "case load_config_llm py_float py_int e of
           Inl err \<Rightarrow> sampling py_float py_int e = Inl err
         | Inr cfg \<Rightarrow>
             llm_provider cfg = ''ollama''
             \<and> llm_api_url cfg
                 = Some (if py_contains ''://'' host then host else ''http://'' @ host)"
    using dm um by (cases "sampling py_float py_int e") (auto simp: load_config_llm_def)
  with d dm u show ?thesis by simp
qed

theorem ollama_host_resolution_witness:
  "detect_llm_provider (map_of [(''OLLAMA_HOST'', ''fishtank:11434'')]) = ''ollama''
   \<and> get_llm_api_url ''ollama'' (map_of [(''OLLAMA_HOST'', ''fishtank:11434'')])
       = Some ''http://fishtank:11434''
   \<and> get_llm_api_url ''ollama'' (map_of [(''OLLAMA_HOST'', ''https://fishtank'')])
       = Some ''https://fishtank''"
proof -
  let ?e1 = "map_of [(''OLLAMA_HOST'', ''fishtank:11434'')]"
  let ?e2 = "map_of [(''OLLAMA_HOST'', ''https://fishtank'')]"
  let ?f = "\<lambda>s :: string. Some (7 / 10 :: rat)"
  let ?i = "\<lambda>s :: string. Some (150 :: int)"
  have c1: "\<not> py_contains ''://'' ''fishtank:11434''" by (simp add: startswith_def)
  have c2: "py_contains ''://'' ''https://fishtank''" by (simp add: startswith_def)
  have a1: "\<not> truthy (?e1 ''LLM_PROVIDER'')" "?e1 ''OLLAMA_HOST'' = Some ''fishtank:11434''"
    "''fishtank:11434'' \<noteq> []" "\<not> truthy (?e1 ''OLLAMA_URL'')"
    "\<not> truthy (?e1 ''LLM_API_URL'')"
    by (simp_all add: truthy_def)
  have a2: "\<not> truthy (?e2 ''LLM_PROVIDER'')" "?e2 ''OLLAMA_HOST'' = Some ''https://fishtank''"
    "''https://fishtank'' \<noteq> []" "\<not> truthy (?e2 ''OLLAMA_URL'')"
    "\<not> truthy (?e2 ''LLM_API_URL'')"
    by (simp_all add: truthy_def)
  have r1: "detect_llm_provider ?e1 = ''ollama''
     \<and> get_llm_api_url (detect_llm_provider ?e1) ?e1
         = Some (if py_contains ''://'' ''fishtank:11434'' then ''fishtank:11434''
                 else ''http://'' @ ''fishtank:11434'')"
    using ollama_host_resolution [OF a1, where py_float = ?f and py_int = ?i] by blast
  have r2: "detect_llm_provider ?e2 = ''ollama''
     \<and> get_llm_api_url (detect_llm_provider ?e2) ?e2
         = Some (if py_contains ''://'' ''https://fishtank'' then ''https://fishtank''
                 else ''http://'' @ ''https://fishtank'')"
    using ollama_host_resolution [OF a2, where py_float = ?f and py_int = ?i] by blast
  from r1 have d1: "detect_llm_provider ?e1 = ''ollama''" by (rule conjunct1)
  from r2 have d2: "detect_llm_provider ?e2 = ''ollama''" by (rule conjunct1)
  from r1 have "get_llm_api_url (detect_llm_provider ?e1) ?e1
         = Some (if py_contains ''://'' ''fishtank:11434'' then ''fishtank:11434''
                 else ''http://'' @ ''fishtank:11434'')"
    by (rule conjunct2)
  then have u1: "get_llm_api_url ''ollama'' ?e1 = Some ''http://fishtank:11434''"
    unfolding d1 using c1 by simp
  from r2 have "get_llm_api_url (detect_llm_provider ?e2) ?e2
         = Some (if py_contains ''://'' ''https://fishtank'' then ''https://fishtank''
                 else ''http://'' @ ''https://fishtank'')"
    by (rule conjunct2)
  then have u2: "get_llm_api_url ''ollama'' ?e2 = Some ''https://fishtank''"
    unfolding d2 using c2 by simp
  from d1 u1 u2 show ?thesis by blast
qed

text \<open>
  C6, as stated, fails: an \<open>OLLAMA_HOST\<close> set to the empty string does not select
  \<open>ollama\<close>; and when \<open>LLM_API_URL\<close> is set too, the base URL is that of \<open>LLM_API_URL\<close>,
  not the host.
\<close>

theorem ollama_host_counterexample:
  "detect_llm_provider (map_of [(''OLLAMA_HOST'', '''')]) = ''openai''
   \<and> detect_llm_provider_main (map_of [(''OLLAMA_HOST'', '''')]) = ''openai''
   \<and> detect_llm_provider
        (map_of [(''OLLAMA_HOST'', ''fishtank:11434''), (''LLM_API_URL'', ''http://10.0.0.9:8000'')])
       = ''ollama''
   \<and> get_llm_api_url ''ollama''
        (map_of [(''OLLAMA_HOST'', ''fishtank:11434''), (''LLM_API_URL'', ''http://10.0.0.9:8000'')])
       = Some ''http://10.0.0.9:8000''
   \<and> detect_llm_provider_main
        (map_of [(''OLLAMA_HOST'', ''fishtank:11434''), (''LLM_API_URL'', ''http://10.0.0.9:8000'')])
       = ''ollama''
   \<and> ollama_api_url
        (map_of [(''OLLAMA_HOST'', ''fishtank:11434''), (''LLM_API_URL'', ''http://10.0.0.9:8000'')])
       = ''http://10.0.0.9:8000''"
  by (simp add: detect_llm_provider_def detect_llm_provider_main_def truthy_def
      get_llm_api_url_def ollama_api_url_def py_or_def or_default_def Let_def)

section \<open>The provider factory\<close>

lemma provider_name_of_str:
  "dict_get config ''provider'' (PStr ''openai'') = PStr name \<Longrightarrow>
     provider_name_of config = Inr (py_lower name)"
  by (simp add: provider_name_of_def)

lemma py_lower_examples:
  "py_lower ''Claude'' = ''claude''" "py_lower ''KoBold'' = ''kobold''"
  by (simp_all add: py_lower_def lower_char_def)

text \<open>
  C3. For a configuration whose provider name is a string: when the lower-cased name is
  not a key of the registry, the constructor raises the \<open>ValueError\<close> whose message
  holds the lower-cased name and the list of the registered names, and no provider is
  instantiated or initialized; when the lower-cased name is a key, the class registered
  under it is instantiated and initialized, whatever the case of the letters given.
\<close>

theorem unknown_provider_rejected:
  assumes "dict_get config ''provider'' (PStr ''openai'') = PStr name"
  shows "(py_lower name \<notin> set (map fst LLM_PROVIDERS) \<longrightarrow>
            create_llm_provider init config =
              ([], Inl (ValueError (''Unknown LLM provider '' @ squote (py_lower name) @
                         ''. Available: '' @ py_repr_list [''openai'', ''ollama'', ''kobold'']))))
       \<and> (py_lower name \<notin> set (map fst VOICE_PROVIDERS) \<longrightarrow>
            create_voice_provider vinit config =
              ([], Inl (ValueError (''Unknown Voice provider '' @ squote (py_lower name) @
                         ''. Available: '' @ py_repr_list [''openai'', ''chatterai'', ''xtt'']))))
       \<and> (\<forall>c. map_of LLM_PROVIDERS (py_lower name) = Some c \<longrightarrow>
            fst (create_llm_provider init config) = [Instantiated c, Initialized c])
       \<and> (\<forall>c. map_of VOICE_PROVIDERS (py_lower name) = Some c \<longrightarrow>
            fst (create_voice_provider vinit config) = [Instantiated c, Initialized c])"
proof (intro conjI impI allI)
  note n = provider_name_of_str [OF assms]
  {
    assume "py_lower name \<notin> set (map fst LLM_PROVIDERS)"
    then have "map_of LLM_PROVIDERS (py_lower name) = None"
      by (simp add: map_of_eq_None_iff)
    then show "create_llm_provider init config =
              ([], Inl (ValueError (''Unknown LLM provider '' @ squote (py_lower name) @
                         ''. Available: '' @ py_repr_list [''openai'', ''ollama'', ''kobold''])))"
      by (simp add: create_llm_provider_def n) (simp add: LLM_PROVIDERS_def)
  }
  {
    assume "py_lower name \<notin> set (map fst VOICE_PROVIDERS)"
    then have "map_of VOICE_PROVIDERS (py_lower name) = None"
      by (simp add: map_of_eq_None_iff)
    then show "create_voice_provider vinit config =
              ([], Inl (ValueError (''Unknown Voice provider '' @ squote (py_lower name) @
                         ''. Available: '' @ py_repr_list [''openai'', ''chatterai'', ''xtt''])))"
      by (simp add: create_voice_provider_def n) (simp add: VOICE_PROVIDERS_def)
  }
  {
    fix c assume "map_of LLM_PROVIDERS (py_lower name) = Some c"
    then show "fst (create_llm_provider init config) = [Instantiated c, Initialized c]"
      by (simp add: create_llm_provider_def n split: sum.splits)
  }
  {
    fix c assume "map_of VOICE_PROVIDERS (py_lower name) = Some c"
    then show "fst (create_voice_provider vinit config) = [Instantiated c, Initialized c]"
      by (simp add: create_voice_provider_def n split: sum.splits)
  }
qed

theorem unknown_provider_rejected_witness:
  "create_llm_provider (\<lambda>c cfg. Inr True) [(''provider'', PStr ''Claude'')]
     = ([], Inl (ValueError (''Unknown LLM provider '' @ squote ''claude'' @
                   ''. Available: '' @ py_repr_list [''openai'', ''ollama'', ''kobold''])))
   \<and> fst (create_llm_provider (\<lambda>c cfg. Inr True) [(''provider'', PStr ''KoBold'')])
     = [Instantiated KoboldProviderC, Initialized KoboldProviderC]"
proof -
  let ?init = "\<lambda>(c :: llm_class) (cfg :: (string \<times> pyval) list). (Inr True :: py_error + bool)"
  let ?vinit = "\<lambda>(c :: voice_class) (cfg :: (string \<times> pyval) list). (Inr True :: py_error + bool)"
  have g1: "dict_get [(''provider'', PStr ''Claude'')] ''provider'' (PStr ''openai'') = PStr ''Claude''"
    by (simp add: dict_get_def)
  have g2: "dict_get [(''provider'', PStr ''KoBold'')] ''provider'' (PStr ''openai'') = PStr ''KoBold''"
    by (simp add: dict_get_def)
  have n1: "py_lower ''Claude'' \<notin> set (map fst LLM_PROVIDERS)"
    by (simp add: py_lower_examples LLM_PROVIDERS_def)
  have n2: "map_of LLM_PROVIDERS (py_lower ''KoBold'') = Some KoboldProviderC"
    by (simp add: py_lower_examples LLM_PROVIDERS_def)
  from unknown_provider_rejected [OF g1, where init = ?init and vinit = ?vinit] n1
  have 1: "create_llm_provider ?init [(''provider'', PStr ''Claude'')]
     = ([], Inl (ValueError (''Unknown LLM provider '' @ squote (py_lower ''Claude'') @
                   ''. Available: '' @ py_repr_list [''openai'', ''ollama'', ''kobold''])))"
    by blast
  from unknown_provider_rejected [OF g2, where init = ?init and vinit = ?vinit] n2
  have 2: "fst (create_llm_provider ?init [(''provider'', PStr ''KoBold'')])
     = [Instantiated KoboldProviderC, Initialized KoboldProviderC]"
    by blast
  from 1 2 show ?thesis unfolding py_lower_examples by blast
qed

section \<open>Voice parameters\<close>

text \<open>
  C7, as amended. A \<open>voice_params\<close> without the key \<open>voice\<close> gives the default voice
  (\<open>ash\<close> for the OpenAI provider, the configured model name for the ChatterAI
  provider), and one without the key \<open>speed\<close> gives the speed 1.0. A value that is
  present is sent to the backend as it is, and whenever the backend answers with a status
  other than 200 the call raises.
\<close>

theorem voice_params_defaults:
  "(map_of voice_params ''voice'' = None \<longrightarrow>
       map_of (json (openai_tts_request p text voice_params)) ''voice'' = Some (PStr ''ash'')
     \<and> map_of (json (chatterai_tts_request q text voice_params)) ''voice''
         = Some (PStr (ca_model q)))
   \<and> (map_of voice_params ''speed'' = None \<longrightarrow>
       map_of (json (openai_tts_request p text voice_params)) ''speed'' = Some (PFloat 1)
     \<and> map_of (json (chatterai_tts_request q text voice_params)) ''speed'' = Some (PFloat 1))
   \<and> (\<forall>v. map_of voice_params ''voice'' = Some v \<longrightarrow>
       map_of (json (openai_tts_request p text voice_params)) ''voice'' = Some v
     \<and> map_of (json (chatterai_tts_request q text voice_params)) ''voice'' = Some v)
   \<and> (\<forall>v. map_of voice_params ''speed'' = Some v \<longrightarrow>
       map_of (json (openai_tts_request p text voice_params)) ''speed'' = Some v
     \<and> map_of (json (chatterai_tts_request q text voice_params)) ''speed'' = Some v)
   \<and> (\<forall>resp. backend (openai_tts_request p text voice_params) = Response resp
           \<and> status resp \<noteq> 200 \<longrightarrow>
         (\<exists>e. openai_text_to_speech p backend text voice_params = Inl e))
   \<and> (\<forall>resp. backend (chatterai_tts_request q text voice_params) = Response resp
           \<and> status resp \<noteq> 200 \<longrightarrow>
         (\<exists>e. chatterai_text_to_speech q backend text voice_params = Inl e))"
  by (auto simp: openai_tts_request_def chatterai_tts_request_def dict_get_def
      openai_text_to_speech_def chatterai_text_to_speech_def split: sum.splits)

theorem voice_params_defaults_witness:
  "map_of (json (openai_tts_request
       \<lparr>ov_api_key = Some ''sk-test'', ov_api_url = Some ''https://api.openai.com/v1'',
        ov_model = ''tts-1'', organization = None, project_id = None\<rparr>
       ''Hello'' [(''speed'', PFloat 1)])) ''voice'' = Some (PStr ''ash'')
   \<and> map_of (json (chatterai_tts_request
       \<lparr>ca_api_url = Some ''https://api.chatterai.com'', ca_api_key = Some ''key'',
        ca_model = ''natural''\<rparr>
       ''Hello'' [(''speed'', PFloat 1)])) ''voice'' = Some (PStr ''natural'')
   \<and> map_of (json (openai_tts_request
       \<lparr>ov_api_key = Some ''sk-test'', ov_api_url = Some ''https://api.openai.com/v1'',
        ov_model = ''tts-1'', organization = None, project_id = None\<rparr>
       ''Hello'' [(''voice'', PStr ''nova'')])) ''voice'' = Some (PStr ''nova'')"
proof -
  let ?p = "\<lparr>ov_api_key = Some ''sk-test'', ov_api_url = Some ''https://api.openai.com/v1'',
        ov_model = ''tts-1'', organization = None, project_id = None\<rparr>"
  let ?q = "\<lparr>ca_api_url = Some ''https://api.chatterai.com'', ca_api_key = Some ''key'',
        ca_model = ''natural''\<rparr>"
  let ?b = "\<lambda>r :: http_request. Raised (ClientError ''unreachable'')"
  have a: "map_of [(''speed'', PFloat 1)] ''voice'' = None" by simp
  have b: "map_of [(''voice'', PStr ''nova'')] ''voice'' = Some (PStr ''nova'')" by simp
  from voice_params_defaults [of "[(''speed'', PFloat 1)]" ?p "''Hello''" ?q ?b] a
  have 1: "map_of (json (openai_tts_request ?p ''Hello'' [(''speed'', PFloat 1)])) ''voice''
        = Some (PStr ''ash'')
     \<and> map_of (json (chatterai_tts_request ?q ''Hello'' [(''speed'', PFloat 1)])) ''voice''
        = Some (PStr (ca_model ?q))"
    by blast
  from voice_params_defaults [of "[(''voice'', PStr ''nova'')]" ?p "''Hello''" ?q ?b] b
  have 2: "map_of (json (openai_tts_request ?p ''Hello'' [(''voice'', PStr ''nova'')])) ''voice''
        = Some (PStr ''nova'')"
    by blast
  from 1 2 show ?thesis by simp
qed

text \<open>
  C7, as stated, fails: a voice that the provider does not list is sent as it is, not
  replaced by the default.
\<close>

theorem unrecognized_voice_counterexample:
  "''robot'' \<notin> set openai_supported_voices
   \<and> map_of (json (openai_tts_request
       \<lparr>ov_api_key = Some ''sk-test'', ov_api_url = Some ''https://api.openai.com/v1'',
        ov_model = ''tts-1'', organization = None, project_id = None\<rparr>
       ''Hello'' [(''voice'', PStr ''robot''), (''speed'', PFloat 1)])) ''voice''
     = Some (PStr ''robot'')
   \<and> ''robot'' \<notin> set chatterai_supported_voices
   \<and> map_of (json (chatterai_tts_request
       \<lparr>ca_api_url = Some ''https://api.chatterai.com'', ca_api_key = Some ''key'',
        ca_model = ''natural''\<rparr>
       ''Hello'' [(''voice'', PStr ''robot''), (''speed'', PFloat 1)])) ''voice''
     = Some (PStr ''robot'')"
  by (simp add: openai_supported_voices_def chatterai_supported_voices_def
      openai_tts_request_def chatterai_tts_request_def dict_get_def)

section \<open>The streaming consumption loop\<close>









end
